theory Spec2Isabelle
  imports Complex_Main "HOL-Library.Multiset"
begin

section \<open>JavaScript numbers\<close>

text \<open>
  Every \<^verbatim>\<open>number\<close> of the TypeScript sources is a value of \<open>jsnum\<close>: a finite
  number, one of the two infinities, or NaN. Finite numbers are kept as exact reals:
  the rounding of IEEE-754 doubles and the sign of zero are not represented (a zero
  divisor is read as \<open>+0\<close>; the modelled code only divides by array lengths, by
  positive constants and by differences it has tested to be non-zero).
  HOL equality on \<open>jsnum\<close> is JavaScript's SameValueZero, the comparison used by
  \<^verbatim>\<open>Array.prototype.includes\<close> and by \<^verbatim>\<open>Set\<close>.
\<close>

datatype jsnum = Num real | PosInf | NegInf | NaN

fun is_nan :: "jsnum \<Rightarrow> bool" where
  "is_nan NaN = True"
| "is_nan _ = False"

fun is_finite :: "jsnum \<Rightarrow> bool" where
  "is_finite (Num _) = True"
| "is_finite _ = False"

text \<open>The relational operators \<^verbatim>\<open><\<close> and \<^verbatim>\<open>></\<close>: false whenever an operand is NaN.\<close>

fun js_lt :: "jsnum \<Rightarrow> jsnum \<Rightarrow> bool" where
  "js_lt NaN _ = False"
| "js_lt _ NaN = False"
| "js_lt (Num a) (Num b) = (a < b)"
| "js_lt _ NegInf = False"
| "js_lt NegInf _ = True"
| "js_lt PosInf _ = False"
| "js_lt (Num _) PosInf = True"

definition js_gt :: "jsnum \<Rightarrow> jsnum \<Rightarrow> bool" where
  "js_gt a b = js_lt b a"

text \<open>\<^verbatim>\<open><=\<close> and \<^verbatim>\<open>>=\<close>, as the specification's inequalities read them.\<close>

definition js_le :: "jsnum \<Rightarrow> jsnum \<Rightarrow> bool" where
  "js_le a b = (\<not> is_nan a \<and> \<not> is_nan b \<and> (js_lt a b \<or> a = b))"

definition js_ge :: "jsnum \<Rightarrow> jsnum \<Rightarrow> bool" where
  "js_ge a b = js_le b a"

fun js_neg :: "jsnum \<Rightarrow> jsnum" where
  "js_neg (Num a) = Num (- a)"
| "js_neg PosInf = NegInf"
| "js_neg NegInf = PosInf"
| "js_neg NaN = NaN"

fun js_add :: "jsnum \<Rightarrow> jsnum \<Rightarrow> jsnum" where
  "js_add NaN _ = NaN"
| "js_add _ NaN = NaN"
| "js_add (Num a) (Num b) = Num (a + b)"
| "js_add PosInf NegInf = NaN"
| "js_add NegInf PosInf = NaN"
| "js_add PosInf _ = PosInf"
| "js_add NegInf _ = NegInf"
| "js_add (Num _) b = b"

definition js_sub :: "jsnum \<Rightarrow> jsnum \<Rightarrow> jsnum" where
  "js_sub a b = js_add a (js_neg b)"

fun js_mul :: "jsnum \<Rightarrow> jsnum \<Rightarrow> jsnum" where
  "js_mul NaN _ = NaN"
| "js_mul _ NaN = NaN"
| "js_mul (Num a) (Num b) = Num (a * b)"
| "js_mul (Num a) PosInf = (if a = 0 then NaN else if 0 < a then PosInf else NegInf)"
| "js_mul (Num a) NegInf = (if a = 0 then NaN else if 0 < a then NegInf else PosInf)"
| "js_mul PosInf (Num b) = (if b = 0 then NaN else if 0 < b then PosInf else NegInf)"
| "js_mul NegInf (Num b) = (if b = 0 then NaN else if 0 < b then NegInf else PosInf)"
| "js_mul PosInf PosInf = PosInf"
| "js_mul NegInf NegInf = PosInf"
| "js_mul PosInf NegInf = NegInf"
| "js_mul NegInf PosInf = NegInf"

fun js_div :: "jsnum \<Rightarrow> jsnum \<Rightarrow> jsnum" where
  "js_div NaN _ = NaN"
| "js_div _ NaN = NaN"
| "js_div (Num a) (Num b) =
     (if b \<noteq> 0 then Num (a / b)
      else if a = 0 then NaN else if 0 < a then PosInf else NegInf)"
| "js_div (Num _) PosInf = Num 0"
| "js_div (Num _) NegInf = Num 0"
| "js_div PosInf (Num b) = (if 0 \<le> b then PosInf else NegInf)"
| "js_div NegInf (Num b) = (if 0 \<le> b then NegInf else PosInf)"
| "js_div _ _ = NaN"

text \<open>Truthiness of a number: \<open>0\<close> and NaN are falsy. \<open>js_or a b\<close> is \<^verbatim>\<open>a || b\<close>.\<close>

fun truthy :: "jsnum \<Rightarrow> bool" where
  "truthy NaN = False"
| "truthy (Num a) = (a \<noteq> 0)"
| "truthy _ = True"

definition js_or :: "jsnum \<Rightarrow> jsnum \<Rightarrow> jsnum" where
  "js_or a b = (if truthy a then a else b)"

text \<open>
  \<^verbatim>\<open>Math.min(...xs)\<close> and \<^verbatim>\<open>Math.max(...xs)\<close>: NaN as soon as an argument is NaN,
  and \<open>+Infinity\<close> (respectively \<open>-Infinity\<close>) for no argument.
\<close>

fun Math_min_from :: "jsnum \<Rightarrow> jsnum list \<Rightarrow> jsnum" where
  "Math_min_from lowest [] = lowest"
| "Math_min_from lowest (n # ns) =
     (if is_nan n then NaN else Math_min_from (if js_lt n lowest then n else lowest) ns)"

definition Math_min :: "jsnum list \<Rightarrow> jsnum" where
  "Math_min ns = Math_min_from PosInf ns"

fun Math_max_from :: "jsnum \<Rightarrow> jsnum list \<Rightarrow> jsnum" where
  "Math_max_from highest [] = highest"
| "Math_max_from highest (n # ns) =
     (if is_nan n then NaN else Math_max_from (if js_gt n highest then n else highest) ns)"

definition Math_max :: "jsnum list \<Rightarrow> jsnum" where
  "Math_max ns = Math_max_from NegInf ns"

text \<open>\<^verbatim>\<open>Math.round\<close> rounds halves towards \<open>+Infinity\<close>; \<^verbatim>\<open>Math.abs\<close>.\<close>

fun Math_round :: "jsnum \<Rightarrow> jsnum" where
  "Math_round (Num a) = Num (of_int \<lfloor>a + 1 / 2\<rfloor>)"
| "Math_round v = v"

fun Math_abs :: "jsnum \<Rightarrow> jsnum" where
  "Math_abs (Num a) = Num \<bar>a\<bar>"
| "Math_abs NegInf = PosInf"
| "Math_abs v = v"

text \<open>
  \<^verbatim>\<open>n & 1\<close>: the operand goes through ToInt32, which sends NaN and the infinities
  to \<open>0\<close> and truncates a finite number towards zero; reduction modulo \<open>2^32\<close> keeps
  the lowest bit.
\<close>

fun js_and1 :: "jsnum \<Rightarrow> jsnum" where
  "js_and1 (Num a) = Num (of_int ((if 0 \<le> a then \<lfloor>a\<rfloor> else \<lceil>a\<rceil>) mod 2))"
| "js_and1 _ = Num 0"

text \<open>Unary \<^verbatim>\<open>+v\<close> on a value that may be \<^verbatim>\<open>undefined\<close>.\<close>

fun to_number :: "jsnum option \<Rightarrow> jsnum" where
  "to_number None = NaN"
| "to_number (Some v) = v"

section \<open>Strings that may be undefined\<close>

fun truthy_str :: "string option \<Rightarrow> bool" where
  "truthy_str None = False"
| "truthy_str (Some s) = (s \<noteq> [])"

text \<open>\<^verbatim>\<open>a || b\<close> on strings: \<^verbatim>\<open>undefined\<close> and the empty string are falsy.\<close>

definition js_or_str :: "string option \<Rightarrow> string \<Rightarrow> string" where
  "js_or_str a b = (case a of None \<Rightarrow> b | Some s \<Rightarrow> if s = [] then b else s)"


section \<open>The built-ins \<^verbatim>\<open>parseFloat\<close> and \<^verbatim>\<open>parseInt\<close>\<close>

















section \<open>The CSV loader service (\<^verbatim>\<open>services/csvLoader.ts\<close>)\<close>


text \<open>
  \<^verbatim>\<open>ShotData\<close> (\<^verbatim>\<open>services/hockeyApi.ts\<close>), with the \<^verbatim>\<open>shotOutcome\<close> property the loader
  adds. The fields \<^verbatim>\<open>x\<close> and \<^verbatim>\<open>y\<close> are \<open>shot_x\<close> and \<open>shot_y\<close> here; an optional
  field that is absent is \<open>None\<close>.
\<close>

record ShotData =
  shot_x :: jsnum
  shot_y :: jsnum
  xG :: jsnum
  shotType :: "string option"
  shotOutcome :: "string option"
  period :: "jsnum option"
  time :: "string option"
  gameId :: "string option"
  playerId :: "string option"
  teamId :: "string option"




text \<open>
  The filters argument of \<open>filterData\<close>; each property may be \<^verbatim>\<open>undefined\<close>.
  (\<open>flt_\<close> keeps the names apart from those of the summary and of the component.)
\<close>

record csv_filters =
  flt_teams :: "string list option"
  flt_shotOutcomes :: "string list option"
  flt_periods :: "jsnum list option"
  flt_minXG :: "jsnum option"
  flt_maxXG :: "jsnum option"

text \<open>
  The callback of \<open>filterData\<close>, one \<^verbatim>\<open>if\<close> after the other. An array, even an
  empty one, is truthy; a \<^verbatim>\<open>teamId\<close> is truthy when it is a non-empty string, a
  \<^verbatim>\<open>period\<close> when it is a number other than \<open>0\<close> and NaN.
\<close>

definition filterData_keeps :: "csv_filters \<Rightarrow> ShotData \<Rightarrow> bool" where
  "filterData_keeps filters shot =
     (if (case flt_teams filters of None \<Rightarrow> False
          | Some ts \<Rightarrow> (case teamId shot of None \<Rightarrow> False
                       | Some t \<Rightarrow> t \<noteq> [] \<and> t \<notin> set ts)) then False
      else if (case flt_periods filters of None \<Rightarrow> False
          | Some ps \<Rightarrow> (case period shot of None \<Rightarrow> False
                       | Some p \<Rightarrow> truthy p \<and> p \<notin> set ps)) then False
      else if (case flt_minXG filters of None \<Rightarrow> False
          | Some lo \<Rightarrow> js_lt (xG shot) lo) then False
      else if (case flt_maxXG filters of None \<Rightarrow> False
          | Some hi \<Rightarrow> js_gt (xG shot) hi) then False
      else True)"

definition filterData :: "ShotData list \<Rightarrow> csv_filters \<Rightarrow> ShotData list" where
  "filterData data filters = filter (filterData_keeps filters) data"

text \<open>
  \<^verbatim>\<open>Array.from(new Set(xs))\<close>: the distinct elements in the order of their first
  occurrence. \<^verbatim>\<open>.filter(Boolean)\<close> before it keeps the truthy values.
\<close>

definition Array_from_Set :: "'a list \<Rightarrow> 'a list" where
  "Array_from_Set xs = foldl (\<lambda>acc a. if a \<in> set acc then acc else acc @ [a]) [] xs"

definition truthy_strings :: "string option list \<Rightarrow> string list" where
  "truthy_strings vs =
     concat (map (\<lambda>v. case v of None \<Rightarrow> [] | Some s \<Rightarrow> if s = [] then [] else [s]) vs)"

definition truthy_numbers :: "jsnum option list \<Rightarrow> jsnum list" where
  "truthy_numbers vs =
     concat (map (\<lambda>v. case v of None \<Rightarrow> [] | Some n \<Rightarrow> if truthy n then [n] else []) vs)"

record coordinate_ranges =
  xMin :: jsnum
  xMax :: jsnum
  yMin :: jsnum
  yMax :: jsnum

record dataset_summary =
  totalShots :: nat
  totalXG :: jsnum
  avgXG :: jsnum
  teams :: "string list"
  periods :: "jsnum list"
  shotTypes :: "string list"
  coordinateRanges :: coordinate_ranges

definition getDatasetSummary :: "ShotData list \<Rightarrow> dataset_summary" where
  "getDatasetSummary data =
     (let xCoords = map shot_x data;
          yCoords = map shot_y data;
          xGValues = map xG data
      in \<lparr> totalShots = length data,
           totalXG = foldl js_add (Num 0) xGValues,
           avgXG = js_div (foldl js_add (Num 0) xGValues) (Num (real (length data))),
           teams = Array_from_Set (truthy_strings (map teamId data)),
           periods = Array_from_Set (truthy_numbers (map period data)),
           shotTypes = Array_from_Set (truthy_strings (map shotType data)),
           coordinateRanges =
             \<lparr> xMin = Math_min xCoords,
               xMax = Math_max xCoords,
               yMin = Math_min yCoords,
               yMax = Math_max yCoords \<rparr> \<rparr>)"

section \<open>The heat map component (\<^verbatim>\<open>InteractiveHockeyHeatMap\<close>)\<close>

subsection \<open>Filter state and \<open>filteredData\<close>\<close>

text \<open>
  \<^verbatim>\<open>FilterState\<close>. Its \<^verbatim>\<open>shotType\<close> property is \<open>shotType_sel\<close> here, the name
  \<open>shotType\<close> being the field of \<open>ShotData\<close>.
\<close>

record FilterState =
  selectedTeams :: "string list"
  selectedPeriods :: "jsnum list"
  selectedShotOutcomes :: "string list"
  minXG :: jsnum
  maxXG :: jsnum
  shotType_sel :: "string list"
  showOnlyGoals :: bool
  showOnlyHighDanger :: bool

text \<open>\<^verbatim>\<open>v || d\<close> for a number \<open>v\<close> that may be \<^verbatim>\<open>undefined\<close>.\<close>

definition js_or_undef :: "jsnum option \<Rightarrow> jsnum \<Rightarrow> jsnum" where
  "js_or_undef v d = (case v of None \<Rightarrow> d | Some a \<Rightarrow> js_or a d)"

text \<open>The callback of \<^verbatim>\<open>shotData.filter\<close> in the \<open>filteredData\<close> memo.\<close>

definition shot_passes :: "FilterState \<Rightarrow> ShotData \<Rightarrow> bool" where
  "shot_passes filters shot =
     (if selectedTeams filters \<noteq> []
         \<and> js_or_str (teamId shot) [] \<notin> set (selectedTeams filters) then False
      else if selectedPeriods filters \<noteq> []
         \<and> js_or_undef (period shot) (Num 0) \<notin> set (selectedPeriods filters) then False
      else if selectedShotOutcomes filters \<noteq> []
         \<and> (let outcome = (if js_gt (xG shot) (Num 0.2) then ''GOAL''
                             else if js_gt (xG shot) (Num 0.1) then ''SHOT''
                             else ''MISSED_SHOT'')
            in outcome \<notin> set (selectedShotOutcomes filters)) then False
      else if js_lt (xG shot) (minXG filters) \<or> js_gt (xG shot) (maxXG filters) then False
      else if shotType_sel filters \<noteq> []
         \<and> js_or_str (shotType shot) [] \<notin> set (shotType_sel filters) then False
      else if showOnlyGoals filters \<and> js_lt (xG shot) (Num 0.8) then False
      else if showOnlyHighDanger filters \<and> js_lt (xG shot) (Num 0.15) then False
      else True)"

definition filteredData :: "ShotData list \<Rightarrow> FilterState \<Rightarrow> ShotData list" where
  "filteredData shotData filters =
     (if length shotData = 0 then [] else filter (shot_passes filters) shotData)"

subsection \<open>Linear scales of d3-scale\<close>

text \<open>
  Modelled from the spec: \<^verbatim>\<open>d3.scaleLinear\<close> belongs to the d3 library (the
  repository's README pins \<^verbatim>\<open>d3 ^7.9.0\<close>), whose code is not part of the sources.
  The specification asks for a linear transform per axis, given by a domain range and
  a pixel range, that does not divide when the domain has zero width. The definitions
  follow the library's continuous scale with two domain points: \<open>normalize\<close> maps
  the domain to \<open>[0, 1]\<close>, or to the constant \<open>0.5\<close> when the difference of the
  domain ends is falsy (NaN when it is NaN); \<open>interpolateNumber\<close> maps \<open>[0, 1]\<close>
  to the range; a descending domain swaps both; the scale answers \<^verbatim>\<open>undefined\<close>
  (\<open>None\<close>) for NaN.
\<close>

definition d3_normalize :: "jsnum \<Rightarrow> jsnum \<Rightarrow> jsnum \<Rightarrow> jsnum" where
  "d3_normalize a b v =
     (let b' = js_sub b a
      in if truthy b' then js_div (js_sub v a) b'
         else if is_nan b' then NaN else Num 0.5)"

definition d3_interpolateNumber :: "jsnum \<Rightarrow> jsnum \<Rightarrow> jsnum \<Rightarrow> jsnum" where
  "d3_interpolateNumber a b t = js_add (js_mul a (js_sub (Num 1) t)) (js_mul b t)"

definition d3_bimap :: "jsnum \<times> jsnum \<Rightarrow> jsnum \<times> jsnum \<Rightarrow> jsnum \<Rightarrow> jsnum" where
  "d3_bimap dm rg v =
     (let d0 = fst dm; d1 = snd dm; r0 = fst rg; r1 = snd rg
      in if js_lt d1 d0 then d3_interpolateNumber r1 r0 (d3_normalize d1 d0 v)
         else d3_interpolateNumber r0 r1 (d3_normalize d0 d1 v))"

definition d3_scaleLinear :: "jsnum \<times> jsnum \<Rightarrow> jsnum \<times> jsnum \<Rightarrow> jsnum \<Rightarrow> jsnum option" where
  "d3_scaleLinear dm rg v = (if is_nan v then None else Some (d3_bimap dm rg v))"

text \<open>The dimensions and the two scales of the chart rendering effect.\<close>

definition width :: real where "width = 1000"
definition height :: real where "height = 700"
definition margin_top :: real where "margin_top = 80"
definition margin_right :: real where "margin_right = 200"
definition margin_bottom :: real where "margin_bottom = 80"
definition margin_left :: real where "margin_left = 80"

definition xScale :: "dataset_summary \<Rightarrow> jsnum \<Rightarrow> jsnum option" where
  "xScale dataSummary =
     (let dataXMin = xMin (coordinateRanges dataSummary);
          dataXMax = xMax (coordinateRanges dataSummary)
      in d3_scaleLinear (dataXMin, dataXMax) (Num margin_left, Num (width - margin_right)))"

definition yScale :: "dataset_summary \<Rightarrow> jsnum \<Rightarrow> jsnum option" where
  "yScale dataSummary =
     (let dataYMin = yMin (coordinateRanges dataSummary);
          dataYMax = yMax (coordinateRanges dataSummary)
      in d3_scaleLinear (dataYMax, dataYMin) (Num margin_top, Num (height - margin_bottom)))"

subsection \<open>Hexagonal binning of d3-hexbin\<close>

text \<open>
  Modelled from the spec: the layout function that \<^verbatim>\<open>d3hexbin()\<close> returns belongs to
  the d3-hexbin library (\<^verbatim>\<open>^0.2.2\<close> in the README), whose code is not part of the
  sources. The specification has it take the pixel position of each record, assign
  the position to a cell of a hexagonal tiling of the given radius, group the records
  by cell and emit the cells that have a member. The definitions follow the library:
  a point whose pixel coordinate is NaN is passed over; the cell of a point is found by
  rounding to a row \<open>p_j\<close> and a column \<open>p_i\<close> and moving to the neighbouring row
  when that centre is nearer; a bin is created, after the bins so far, when its cell is
  first met, and a later point of the cell is pushed onto it. A cell stands for the
  key string \<^verbatim>\<open>pi + "-" + pj\<close>. The extent given to the layout plays no part in
  the binning.
\<close>

type_synonym hex_cell = "jsnum \<times> jsnum"

definition hexbin_cell :: "jsnum \<Rightarrow> jsnum \<Rightarrow> jsnum \<Rightarrow> jsnum \<Rightarrow> hex_cell" where
  "hexbin_cell dx dy px0 py0 =
     (let py = js_div py0 dy;
          p_j = Math_round py;
          px = js_sub (js_div px0 dx) (js_div (js_and1 p_j) (Num 2));
          p_i = Math_round px;
          py1 = js_sub py p_j
      in if js_gt (js_mul (Math_abs py1) (Num 3)) (Num 1) then
           (let px1 = js_sub px p_i;
                p_i2 = js_add p_i (js_div (if js_lt px p_i then Num (- 1) else Num 1) (Num 2));
                p_j2 = js_add p_j (if js_lt py p_j then Num (- 1) else Num 1);
                px2 = js_sub px p_i2;
                py2 = js_sub py p_j2
            in if js_gt (js_add (js_mul px1 px1) (js_mul py1 py1))
                        (js_add (js_mul px2 px2) (js_mul py2 py2))
               then (js_add p_i2 (js_div (if truthy (js_and1 p_j) then Num 1 else Num (- 1)) (Num 2)),
                     p_j2)
               else (p_i, p_j))
         else (p_i, p_j))"

text \<open>A bin: its cell and its members, in the order they were pushed.\<close>

fun bin_push :: "hex_cell \<Rightarrow> 'a \<Rightarrow> (hex_cell \<times> 'a list) list \<Rightarrow> (hex_cell \<times> 'a list) list" where
  "bin_push c point [] = [(c, [point])]"
| "bin_push c point (b # bins) =
     (if fst b = c then (fst b, snd b @ [point]) # bins else b # bin_push c point bins)"

text \<open>One round of the loop over the points, and the loop from no bin.\<close>

definition hexbin_step ::
  "('a \<Rightarrow> jsnum option) \<Rightarrow> ('a \<Rightarrow> jsnum option) \<Rightarrow> jsnum \<Rightarrow> jsnum
     \<Rightarrow> (hex_cell \<times> 'a list) list \<Rightarrow> 'a \<Rightarrow> (hex_cell \<times> 'a list) list" where
  "hexbin_step fx fy dx dy bins point =
     (let px = to_number (fx point); py = to_number (fy point)
      in if is_nan px \<or> is_nan py then bins
         else bin_push (hexbin_cell dx dy px py) point bins)"

definition hexbin ::
  "('a \<Rightarrow> jsnum option) \<Rightarrow> ('a \<Rightarrow> jsnum option) \<Rightarrow> jsnum \<Rightarrow> jsnum \<Rightarrow> 'a list
     \<Rightarrow> (hex_cell \<times> 'a list) list" where
  "hexbin fx fy dx dy points = foldl (hexbin_step fx fy dx dy) [] points"


text \<open>The centre the library stores in a bin.\<close>

definition bin_centre :: "jsnum \<Rightarrow> jsnum \<Rightarrow> hex_cell \<Rightarrow> jsnum \<times> jsnum" where
  "bin_centre dx dy c =
     (js_mul (js_add (fst c) (js_div (js_and1 (snd c)) (Num 2))) dx, js_mul (snd c) dy)"

text \<open>
  \<open>hexData\<close> of the rendering effect: the layout is given the two scales as accessors
  and the radius \<open>8\<close> or \<open>12\<close>, from which the library takes the column width
  \<open>dx = r * 2 * sin (pi / 3)\<close> and the row height \<open>dy = r * 1.5\<close>.
\<close>

definition hexbin_radius :: "FilterState \<Rightarrow> real" where
  "hexbin_radius filters = (if showOnlyHighDanger filters then 8 else 12)"

definition hexData ::
  "dataset_summary \<Rightarrow> FilterState \<Rightarrow> ShotData list \<Rightarrow> (hex_cell \<times> ShotData list) list" where
  "hexData dataSummary filters filteredData' =
     (let r = hexbin_radius filters
      in hexbin (\<lambda>d. xScale dataSummary (shot_x d)) (\<lambda>d. yScale dataSummary (shot_y d))
           (Num (r * 2 * sin (pi / 3))) (Num (r * 1.5)) filteredData')"

text \<open>
  The bins the effect draws: the effect returns before drawing when there is no
  filtered record or no summary yet (or no SVG element, which is not represented), and
  the selection is joined to the bins that have a member.
\<close>

definition drawn_hexes ::
  "dataset_summary option \<Rightarrow> FilterState \<Rightarrow> ShotData list \<Rightarrow> (hex_cell \<times> ShotData list) list" where
  "drawn_hexes dataSummary filters filteredData' =
     (case dataSummary of
        None \<Rightarrow> []
      | Some summary \<Rightarrow>
          if length filteredData' = 0 then []
          else filter (\<lambda>d. length (snd d) > 0) (hexData summary filters filteredData'))"

subsection \<open>The fill colour of a hexagon\<close>

text \<open>
  Modelled from the spec: \<^verbatim>\<open>d3.mean\<close> and \<^verbatim>\<open>d3.max\<close> belong to the d3 library,
  whose code is not part of the sources. The specification has the average expected
  goal of a bin be the mean of its members' values, and the maximum bin count be the
  greatest count of the binning result. As in the library,
  \<^verbatim>\<open>d3.mean(d, shot => shot.xG)\<close> is the mean of the values that are not NaN and
  \<^verbatim>\<open>undefined\<close> when there is none, and \<^verbatim>\<open>d3.max(hexData, d => d.length)\<close> is the
  greatest length and \<^verbatim>\<open>undefined\<close> for no bin.
\<close>

definition d3_mean :: "jsnum list \<Rightarrow> jsnum option" where
  "d3_mean values =
     (let vs = filter (\<lambda>v. \<not> is_nan v) values
      in if vs = [] then None
         else Some (js_div (foldl js_add (Num 0) vs) (Num (real (length vs)))))"

definition d3_max_length :: "'a list list \<Rightarrow> nat option" where
  "d3_max_length bins = (if bins = [] then None else Some (fold max (map length bins) 0))"

definition maxBinSize :: "(hex_cell \<times> 'a list) list \<Rightarrow> jsnum" where
  "maxBinSize hexData' =
     js_or_undef (map_option (\<lambda>n. Num (real n)) (d3_max_length (map snd hexData'))) (Num 1)"

text \<open>
  Modelled from the spec: \<^verbatim>\<open>d3.scaleSequential\<close> belongs to the d3 library. The
  specification has the density-only ramp be a function of \<open>count / maxBinCount\<close>.
  As in the library, \<open>colorScale\<close>, the sequential scale with the domain
  \<open>[0, maxBinSize]\<close>, hands its interpolator the position of the value in the domain,
  \<open>0.5\<close> when the domain is a single point. The interpolators
  \<^verbatim>\<open>d3.interpolateYlOrRd\<close> and \<^verbatim>\<open>d3.interpolateReds\<close> are colour tables of the library
  and are parameters here.
\<close>

definition colorScale :: "(jsnum \<Rightarrow> 'c) \<Rightarrow> jsnum \<Rightarrow> nat \<Rightarrow> 'c" where
  "colorScale interpolateYlOrRd maxBinSize' n =
     (let t0 = Num 0; t1 = maxBinSize';
          k10 = (if t0 = t1 then Num 0 else js_div (Num 1) (js_sub t1 t0))
      in interpolateYlOrRd
           (if k10 = Num 0 then Num 0.5 else js_mul (js_sub (Num (real n)) t0) k10))"

definition bin_avgXG :: "ShotData list \<Rightarrow> jsnum" where
  "bin_avgXG d = js_or_undef (d3_mean (map xG d)) (Num 0)"

text \<open>The callback of \<^verbatim>\<open>.attr('fill', ...)\<close>, for a bin \<open>d\<close>.\<close>

definition fill ::
  "(jsnum \<Rightarrow> 'c) \<Rightarrow> (jsnum \<Rightarrow> 'c) \<Rightarrow> FilterState \<Rightarrow> jsnum \<Rightarrow> ShotData list \<Rightarrow> 'c" where
  "fill interpolateReds interpolateYlOrRd filters maxBinSize' d =
     (let avg = bin_avgXG d;
          intensity = js_div (Num (real (length d))) maxBinSize'
      in if showOnlyHighDanger filters then interpolateReds avg
         else if js_gt avg (Num 0.1) then
           interpolateReds (Math_min [Num 1, js_add intensity avg])
         else colorScale interpolateYlOrRd maxBinSize' (length d))"

section \<open>The specification's wording\<close>

text \<open>
  The Filter Evaluator of the specification: a record passes a dimension with an
  allowlist when the list is empty or contains the record's value, an absent
  \<^verbatim>\<open>teamId\<close> or \<^verbatim>\<open>shotType\<close> counting as the empty string and an absent period as
  \<open>0\<close>; it passes the range when \<open>expectedGoalMin \<le> expectedGoalValue \<le>
  expectedGoalMax\<close>; each quick-filter flag that is set adds its threshold. The
  configuration is a \<open>FilterState\<close> whose \<open>selectedShotOutcomes\<close> is empty (the
  specification's FilterConfiguration has no such field).
\<close>

definition allowlist_passes :: "'a list \<Rightarrow> 'a \<Rightarrow> bool" where
  "allowlist_passes allowlist v = (allowlist = [] \<or> v \<in> set allowlist)"

definition spec_passes :: "FilterState \<Rightarrow> ShotData \<Rightarrow> bool" where
  "spec_passes config record =
     (allowlist_passes (selectedTeams config)
        (case teamId record of None \<Rightarrow> [] | Some t \<Rightarrow> t)
      \<and> allowlist_passes (selectedPeriods config)
        (case period record of None \<Rightarrow> Num 0 | Some p \<Rightarrow> p)
      \<and> allowlist_passes (shotType_sel config)
        (case shotType record of None \<Rightarrow> [] | Some t \<Rightarrow> t)
      \<and> js_le (minXG config) (xG record) \<and> js_le (xG record) (maxXG config)
      \<and> (showOnlyGoals config \<longrightarrow> js_ge (xG record) (Num 0.8))
      \<and> (showOnlyHighDanger config \<longrightarrow> js_ge (xG record) (Num 0.15)))"

definition no_restriction :: "FilterState \<Rightarrow> ShotData list \<Rightarrow> bool" where
  "no_restriction config records =
     (selectedTeams config = [] \<and> selectedPeriods config = [] \<and> shotType_sel config = []
      \<and> \<not> showOnlyGoals config \<and> \<not> showOnlyHighDanger config
      \<and> (\<forall>r \<in> set records. js_le (minXG config) (xG r) \<and> js_le (xG r) (maxXG config)))"

text \<open>
  The Intensity/Color Mapper of the specification, on a bin given by its count and
  its average expected goal, both real: three branches, the first that matches wins.
\<close>

definition spec_color ::
  "(real \<Rightarrow> 'c) \<Rightarrow> (real \<Rightarrow> 'c) \<Rightarrow> (nat \<Rightarrow> 'c) \<Rightarrow> bool \<Rightarrow> nat \<Rightarrow> nat \<Rightarrow> real \<Rightarrow> 'c" where
  "spec_color danger_ramp quality_ramp density_ramp highDangerOnly maxBinCount binCount
       averageExpectedGoal =
     (if highDangerOnly then danger_ramp averageExpectedGoal
      else if averageExpectedGoal > 0.1 then
        quality_ramp (min 1 (real binCount / real maxBinCount + averageExpectedGoal))
      else density_ramp binCount)"

text \<open>The value of a finite number, and the mean of the specification.\<close>

fun num_val :: "jsnum \<Rightarrow> real" where
  "num_val (Num a) = a"
| "num_val _ = 0"

definition mean_xG :: "ShotData list \<Rightarrow> real" where
  "mean_xG members = (\<Sum>s\<leftarrow>members. num_val (xG s)) / real (length members)"

section \<open>Example inputs\<close>

definition shot :: "jsnum \<Rightarrow> jsnum \<Rightarrow> jsnum \<Rightarrow> string option \<Rightarrow> jsnum option \<Rightarrow> ShotData" where
  "shot a b g team per =
     \<lparr> shot_x = a, shot_y = b, xG = g, shotType = Some ''wrist'', shotOutcome = None,
       period = per, time = None, gameId = None, playerId = None, teamId = team \<rparr>"

definition all_shots :: FilterState where
  "all_shots =
     \<lparr> selectedTeams = [], selectedPeriods = [], selectedShotOutcomes = [],
       minXG = Num 0, maxXG = Num 1, shotType_sel = [],
       showOnlyGoals = False, showOnlyHighDanger = False \<rparr>"

definition sample_shots :: "ShotData list" where
  "sample_shots =
     [shot (Num 15) (Num 5) (Num 0.15) (Some ''EDM'') (Some (Num 1)),
      shot (Num 15.2) (Num 5.1) (Num 0.25) (Some ''TOR'') (Some (Num 2)),
      shot (Num (- 40)) (Num (- 30)) (Num 0.9) None None]"

definition same_place_shots :: "ShotData list" where
  "same_place_shots =
     [shot (Num 15) (Num 5) (Num 0.15) (Some ''EDM'') (Some (Num 1)),
      shot (Num 15) (Num 5) (Num 0.25) (Some ''TOR'') (Some (Num 2))]"



definition no_filters :: csv_filters where
  "no_filters =
     \<lparr> flt_teams = None, flt_shotOutcomes = None, flt_periods = None,
       flt_minXG = None, flt_maxXG = None \<rparr>"

section \<open>The Filter Evaluator\<close>

lemma not_js_lt_iff: "\<not> is_nan a \<Longrightarrow> \<not> is_nan b \<Longrightarrow> (\<not> js_lt a b) = js_le b a"
  by (cases a; cases b) (auto simp: js_le_def)

lemma js_or_str_empty: "js_or_str v [] = (case v of None \<Rightarrow> [] | Some t \<Rightarrow> t)"
  by (simp add: js_or_str_def split: option.splits)

lemma js_or_undef_zero:
  "v \<noteq> Some NaN \<Longrightarrow> js_or_undef v (Num 0) = (case v of None \<Rightarrow> Num 0 | Some p \<Rightarrow> p)"
  by (cases v) (auto simp: js_or_undef_def js_or_def elim: truthy.elims)

lemma shot_passes_spec:
  assumes "selectedShotOutcomes f = []" "\<not> is_nan (minXG f)" "\<not> is_nan (maxXG f)"
    "\<not> is_nan (xG s)" "period s \<noteq> Some NaN"
  shows "shot_passes f s = spec_passes f s"
proof -
  have n8: "\<not> is_nan (Num 0.8)" and n15: "\<not> is_nan (Num 0.15)" by simp_all
  show ?thesis
    unfolding shot_passes_def spec_passes_def allowlist_passes_def js_ge_def js_gt_def
    using assms not_js_lt_iff[OF assms(4) assms(2)] not_js_lt_iff[OF assms(3) assms(4)]
      not_js_lt_iff[OF assms(4) n8] not_js_lt_iff[OF assms(4) n15]
    by (auto simp: js_or_str_empty js_or_undef_zero)
qed

text \<open>
  C1. For every collection of records and every filter configuration, the output of
  \<open>filteredData\<close> is the input filtered, in its order, by the specification's
  predicate \<open>spec_passes\<close>: allowlists that are empty or contain the record's value
  (an absent \<^verbatim>\<open>teamId\<close> as the empty string, an absent period as \<open>0\<close>), the
  inclusive range, and the thresholds \<open>0.8\<close> and \<open>0.15\<close> of the flags that are set.
  With every allowlist empty, both flags false and a range that holds every record's
  value, the output is the input. The records and the configuration are those of the
  specification: expected-goal values, range bounds and periods are numbers (not
  NaN), and the configuration has no shot-outcome selection.
\<close>

theorem filteredData_spec:
  assumes "selectedShotOutcomes config = []"
    and "\<not> is_nan (minXG config)" and "\<not> is_nan (maxXG config)"
    and "\<forall>r \<in> set records. \<not> is_nan (xG r) \<and> period r \<noteq> Some NaN"
  shows "filteredData records config = filter (spec_passes config) records
    \<and> (no_restriction config records \<longrightarrow> filteredData records config = records)"
proof -
  have eq: "filteredData records config = filter (spec_passes config) records"
    unfolding filteredData_def using assms
    by (auto intro!: filter_cong simp: shot_passes_spec)
  moreover have "no_restriction config records \<Longrightarrow> filter (spec_passes config) records = records"
    by (rule filter_True) (auto simp: no_restriction_def spec_passes_def allowlist_passes_def)
  ultimately show ?thesis by simp
qed

theorem filteredData_spec_witness:
  "selectedShotOutcomes all_shots = []
   \<and> \<not> is_nan (minXG all_shots) \<and> \<not> is_nan (maxXG all_shots)
   \<and> list_all (\<lambda>r. \<not> is_nan (xG r) \<and> period r \<noteq> Some NaN) sample_shots
   \<and> no_restriction all_shots sample_shots
   \<and> filteredData sample_shots all_shots = filter (spec_passes all_shots) sample_shots
   \<and> filteredData sample_shots all_shots = sample_shots"
proof -
  have h1: "selectedShotOutcomes all_shots = []"
    and h2: "\<not> is_nan (minXG all_shots)" and h3: "\<not> is_nan (maxXG all_shots)"
    by (simp_all add: all_shots_def)
  have h4: "\<forall>r \<in> set sample_shots. \<not> is_nan (xG r) \<and> period r \<noteq> Some NaN"
    by (simp add: sample_shots_def shot_def)
  have h5: "no_restriction all_shots sample_shots"
    by (simp add: no_restriction_def all_shots_def sample_shots_def shot_def js_le_def)
  have c: "filteredData sample_shots all_shots = filter (spec_passes all_shots) sample_shots"
    and d: "filteredData sample_shots all_shots = sample_shots"
    using filteredData_spec [OF h1 h2 h3 h4] h5 by blast+
  show ?thesis using h1 h2 h3 h4 h5 c d by (simp add: list_all_iff)
qed

text \<open>
  C7. Filtering is idempotent under a fixed configuration: applying \<open>filteredData\<close>
  to its own output gives the same result as applying it once.
\<close>

theorem filteredData_idempotent:
  "filteredData (filteredData shotData filters) filters = filteredData shotData filters"
  by (simp add: filteredData_def)

section \<open>The Dataset Summary Calculator on the empty collection\<close>

text \<open>
  C2. The claim asks for \<open>avgXG = 0\<close> on the empty collection. The code divides the
  empty sum \<open>0\<close> by the length \<open>0\<close>, and the result is NaN.
\<close>

theorem getDatasetSummary_empty_avgXG:
  "avgXG (getDatasetSummary []) = NaN \<and> avgXG (getDatasetSummary []) \<noteq> Num 0"
  by (simp add: getDatasetSummary_def)

text \<open>
  C9. As the claim states it, no bound of the empty collection is an infinity or NaN;
  \<open>xMin\<close> is \<open>+Infinity\<close>.
\<close>

theorem getDatasetSummary_empty_xMin_infinite:
  "\<not> is_finite (xMin (coordinateRanges (getDatasetSummary [])))"
  by (simp add: getDatasetSummary_def Math_min_def)

text \<open>
  C9, amended. For the empty collection the bounds are those of \<^verbatim>\<open>Math.min\<close> and
  \<^verbatim>\<open>Math.max\<close> without arguments: \<open>xMin\<close> and \<open>yMin\<close> are \<open>+Infinity\<close>, \<open>xMax\<close>
  and \<open>yMax\<close> are \<open>-Infinity\<close>; the summary has no other representation of "empty".
  They do not reach the scales: with no record nothing is filtered, and the effect
  draws no hexagon.
\<close>

theorem getDatasetSummary_empty_bounds:
  "coordinateRanges (getDatasetSummary []) =
     \<lparr> xMin = PosInf, xMax = NegInf, yMin = PosInf, yMax = NegInf \<rparr>
   \<and> drawn_hexes (Some (getDatasetSummary [])) filters (filteredData [] filters) = []"
  by (simp add: getDatasetSummary_def Math_min_def Math_max_def drawn_hexes_def
      filteredData_def)

section \<open>Coordinate bounds and the pixel transform\<close>

lemma finite_not_nan: "is_finite v \<Longrightarrow> \<not> is_nan v"
  by (cases v) auto

lemma coordinateRanges_getDatasetSummary:
  "coordinateRanges (getDatasetSummary data) =
     \<lparr> xMin = Math_min (map shot_x data), xMax = Math_max (map shot_x data),
       yMin = Math_min (map shot_y data), yMax = Math_max (map shot_y data) \<rparr>"
  by (simp add: getDatasetSummary_def Let_def)

lemma Math_min_from_same:
  "\<forall>n \<in> set ns. n = Num a \<Longrightarrow> lowest = PosInf \<or> lowest = Num a
    \<Longrightarrow> Math_min_from lowest ns = (if ns = [] then lowest else Num a)"
  by (induction ns arbitrary: lowest) auto

lemma Math_max_from_same:
  "\<forall>n \<in> set ns. n = Num a \<Longrightarrow> highest = NegInf \<or> highest = Num a
    \<Longrightarrow> Math_max_from highest ns = (if ns = [] then highest else Num a)"
  by (induction ns arbitrary: highest) (auto simp: js_gt_def)



text \<open>The scale of a domain of zero width: no division, the middle of the range.\<close>

lemma d3_normalize_zero_width: "d3_normalize (Num a) (Num a) v = Num 0.5"
  by (simp add: d3_normalize_def js_sub_def)

lemma d3_scaleLinear_zero_width:
  "\<not> is_nan v \<Longrightarrow>
    d3_scaleLinear (Num a, Num a) (Num r0, Num r1) v = Some (Num ((r0 + r1) / 2))"
  by (simp add: d3_scaleLinear_def d3_bimap_def d3_normalize_def d3_interpolateNumber_def
      js_sub_def Let_def algebra_simps)




text \<open>
  C8. When all \<^verbatim>\<open>x\<close> values of the loaded records are one number, the domain of
  \<open>xScale\<close> has zero width, and \<open>xScale\<close> sends every number to the pixel \<open>440\<close>,
  the middle of its range; likewise \<open>yScale\<close> sends every number to \<open>350\<close> when
  all \<^verbatim>\<open>y\<close> values are one number. The result is a finite number: nothing was divided
  by zero.
\<close>

theorem zero_width_domain:
  assumes "shotData \<noteq> []" and "\<not> is_nan v"
  shows "((\<forall>s \<in> set shotData. shot_x s = Num a) \<longrightarrow>
            xScale (getDatasetSummary shotData) v = Some (Num 440))
       \<and> ((\<forall>s \<in> set shotData. shot_y s = Num b) \<longrightarrow>
            yScale (getDatasetSummary shotData) v = Some (Num 350))"
proof (intro conjI impI)
  assume same: "\<forall>s \<in> set shotData. shot_x s = Num a"
  then have "Math_min (map shot_x shotData) = Num a" "Math_max (map shot_x shotData) = Num a"
    using assms(1) Math_min_from_same[of "map shot_x shotData" a PosInf]
      Math_max_from_same[of "map shot_x shotData" a NegInf]
    by (simp_all add: Math_min_def Math_max_def)
  then show "xScale (getDatasetSummary shotData) v = Some (Num 440)"
    using assms(2)
    by (simp add: xScale_def coordinateRanges_getDatasetSummary d3_scaleLinear_zero_width
        margin_left_def margin_right_def width_def)
next
  assume same: "\<forall>s \<in> set shotData. shot_y s = Num b"
  then have "Math_min (map shot_y shotData) = Num b" "Math_max (map shot_y shotData) = Num b"
    using assms(1) Math_min_from_same[of "map shot_y shotData" b PosInf]
      Math_max_from_same[of "map shot_y shotData" b NegInf]
    by (simp_all add: Math_min_def Math_max_def)
  then show "yScale (getDatasetSummary shotData) v = Some (Num 350)"
    using assms(2)
    by (simp add: yScale_def coordinateRanges_getDatasetSummary d3_scaleLinear_zero_width
        margin_top_def margin_bottom_def height_def)
qed

theorem zero_width_domain_witness:
  "same_place_shots \<noteq> [] \<and> \<not> is_nan (Num 3)
   \<and> list_all (\<lambda>s. shot_x s = Num 15) same_place_shots
   \<and> list_all (\<lambda>s. shot_y s = Num 5) same_place_shots
   \<and> xScale (getDatasetSummary same_place_shots) (Num 3) = Some (Num 440)
   \<and> yScale (getDatasetSummary same_place_shots) (Num 3) = Some (Num 350)"
proof -
  have h1: "same_place_shots \<noteq> []" and h2: "\<not> is_nan (Num 3)"
    by (simp_all add: same_place_shots_def)
  have h3: "\<forall>s \<in> set same_place_shots. shot_x s = Num 15"
    and h4: "\<forall>s \<in> set same_place_shots. shot_y s = Num 5"
    by (simp_all add: same_place_shots_def shot_def)
  show ?thesis
    using h1 h2 h3 h4 zero_width_domain [OF h1 h2, of 15 5] by (simp add: list_all_iff)
qed

section \<open>The Spatial Binning Engine\<close>














section \<open>The Intensity/Color Mapper\<close>

lemma foldl_js_add_finite:
  "\<forall>v \<in> set vs. is_finite v \<Longrightarrow>
    foldl js_add (Num acc) vs = Num (acc + (\<Sum>v\<leftarrow>vs. num_val v))"
proof (induction vs arbitrary: acc)
  case Nil
  then show ?case by simp
next
  case (Cons v vs)
  then obtain a where "v = Num a" by (cases v) auto
  then show ?case using Cons by (simp add: add.assoc)
qed

text \<open>On a bin of finite values, the average the callback computes is the mean.\<close>

lemma bin_avgXG_mean:
  assumes "d \<noteq> []" and "\<forall>s \<in> set d. is_finite (xG s)"
  shows "bin_avgXG d = Num (mean_xG d)"
proof -
  have nn: "filter (\<lambda>v. \<not> is_nan v) (map xG d) = map xG d"
    using assms(2) by (intro filter_True) (auto dest: finite_not_nan)
  have sum: "foldl js_add (Num 0) (map xG d) = Num (\<Sum>s\<leftarrow>d. num_val (xG s))"
    using foldl_js_add_finite[of "map xG d" 0] assms(2) by (simp add: comp_def)
  have "d3_mean (map xG d) = Some (Num (mean_xG d))"
    using assms(1) by (simp add: d3_mean_def nn sum mean_xG_def)
  then show ?thesis by (simp add: bin_avgXG_def js_or_undef_def js_or_def)
qed

lemma Math_min_one: "Math_min [Num 1, Num t] = Num (min 1 t)"
  by (simp add: Math_min_def min_def)

text \<open>The density scale hands its interpolator the count over the maximum.\<close>

lemma colorScale_ratio:
  "1 \<le> maxBinCount \<Longrightarrow>
    colorScale interpolateYlOrRd (Num (real maxBinCount)) n
      = interpolateYlOrRd (Num (real n / real maxBinCount))"
  by (simp add: colorScale_def js_sub_def Let_def)

text \<open>The maximum the effect computes is a count of at least \<open>1\<close>.\<close>

lemma maxBinSize_positive: "\<exists>m. 1 \<le> m \<and> maxBinSize bins = Num (real m)"
proof (cases "bins = [] \<or> fold max (map length (map snd bins)) 0 = 0")
  case True
  then have "maxBinSize bins = Num (real (1::nat))"
    by (auto simp: maxBinSize_def d3_max_length_def js_or_undef_def js_or_def)
  then show ?thesis by blast
next
  case False
  then have "maxBinSize bins = Num (real (fold max (map length (map snd bins)) 0))"
    by (auto simp: maxBinSize_def d3_max_length_def js_or_undef_def js_or_def)
  then show ?thesis using False by (intro exI[of _ "fold max (map length (map snd bins)) 0"]) simp
qed

text \<open>
  C4. For every bin (a non-empty list of records with finite expected-goal values,
  its count their number and its average their mean), every maximum bin count of at
  least \<open>1\<close> and every flag, the fill callback is the three-branch policy of the
  specification: with the flag set, the red ramp at the average alone; else, when the
  average exceeds \<open>0.1\<close>, the red ramp at \<open>min 1 (count / maxBinCount + average)\<close>;
  else the density scale at the count.
\<close>

theorem fill_three_branches:
  assumes "d \<noteq> []" and "\<forall>s \<in> set d. is_finite (xG s)" and "1 \<le> maxBinCount"
  shows "fill interpolateReds interpolateYlOrRd filters (Num (real maxBinCount)) d =
     spec_color (\<lambda>q. interpolateReds (Num q)) (\<lambda>q. interpolateReds (Num q))
       (colorScale interpolateYlOrRd (Num (real maxBinCount)))
       (showOnlyHighDanger filters) maxBinCount (length d) (mean_xG d)"
  using assms(3)
  by (simp add: fill_def spec_color_def bin_avgXG_mean[OF assms(1,2)] js_gt_def
      Math_min_one Let_def)

theorem fill_three_branches_witness:
  "take 2 sample_shots \<noteq> [] \<and> list_all (\<lambda>s. is_finite (xG s)) (take 2 sample_shots)
   \<and> (1::nat) \<le> 2
   \<and> fill (\<lambda>v. v) (\<lambda>v. v) all_shots (Num (real (2::nat))) (take 2 sample_shots) =
       spec_color Num Num (colorScale (\<lambda>v. v) (Num (real (2::nat))))
         (showOnlyHighDanger all_shots) 2 (length (take 2 sample_shots))
         (mean_xG (take 2 sample_shots))"
proof -
  have h1: "take 2 sample_shots \<noteq> []"
    and h2: "\<forall>s \<in> set (take 2 sample_shots). is_finite (xG s)"
    by (simp_all add: sample_shots_def shot_def)
  have h3: "(1::nat) \<le> 2" by simp
  show ?thesis
    using h1 h2 fill_three_branches [OF h1 h2 h3, of "\<lambda>v. v" "\<lambda>v. v" all_shots]
    by (simp add: list_all_iff)
qed

text \<open>
  C5. With \<open>showOnlyHighDanger\<close> set, two bins with the same average expected goal
  get the same colour, whatever their counts and whatever the maximum bin count.
\<close>

theorem fill_high_danger_ignores_count:
  assumes "showOnlyHighDanger filters" and "bin_avgXG d1 = bin_avgXG d2"
  shows "fill interpolateReds interpolateYlOrRd filters m1 d1
       = fill interpolateReds interpolateYlOrRd filters m2 d2"
  using assms by (simp add: fill_def Let_def)

theorem fill_high_danger_ignores_count_witness:
  "showOnlyHighDanger (all_shots\<lparr>showOnlyHighDanger := True\<rparr>)
   \<and> bin_avgXG [shot (Num 1) (Num 1) (Num 0.2) None None] = bin_avgXG (take 2 sample_shots)
   \<and> length [shot (Num 1) (Num 1) (Num 0.2) None None] \<noteq> length (take 2 sample_shots)
   \<and> fill (\<lambda>v. v) (\<lambda>v. v) (all_shots\<lparr>showOnlyHighDanger := True\<rparr>) (Num 1)
         [shot (Num 1) (Num 1) (Num 0.2) None None]
       = fill (\<lambda>v. v) (\<lambda>v. v) (all_shots\<lparr>showOnlyHighDanger := True\<rparr>) (Num 2)
         (take 2 sample_shots)"
proof -
  have h1: "showOnlyHighDanger (all_shots\<lparr>showOnlyHighDanger := True\<rparr>)" by simp
  have h2: "bin_avgXG [shot (Num 1) (Num 1) (Num 0.2) None None]
      = bin_avgXG (take 2 sample_shots)"
    by (simp add: bin_avgXG_def d3_mean_def sample_shots_def shot_def js_or_undef_def js_or_def)
  have h3: "length [shot (Num 1) (Num 1) (Num 0.2) None None] \<noteq> length (take 2 sample_shots)"
    by (simp add: sample_shots_def)
  show ?thesis
    using h1 h2 h3
      fill_high_danger_ignores_count [OF h1 h2, of "\<lambda>v. v" "\<lambda>v. v" "Num 1" "Num 2"]
    by simp
qed

section \<open>Loading\<close>




section \<open>\<open>filterData\<close> of the loader service\<close>

text \<open>
  C10. As the claim states it, an empty \<^verbatim>\<open>teams\<close> array rejects every record whose
  \<^verbatim>\<open>teamId\<close> is present. A record whose \<^verbatim>\<open>teamId\<close> is the empty string is kept.
\<close>

theorem filterData_empty_teams_keeps_blank_team:
  "filterData [shot (Num 15) (Num 5) (Num 0.15) (Some []) (Some (Num 1))]
       (no_filters\<lparr>flt_teams := Some []\<rparr>)
     = [shot (Num 15) (Num 5) (Num 0.15) (Some []) (Some (Num 1))]"
  by (simp add: filterData_def filterData_keeps_def no_filters_def shot_def)

text \<open>
  C10, amended. A record whose \<^verbatim>\<open>teamId\<close> (respectively \<^verbatim>\<open>period\<close>) is absent passes
  the team (respectively period) test whatever allowlist is supplied: the outcome is
  the one without that allowlist. An empty \<^verbatim>\<open>teams\<close> array rejects every record whose
  \<^verbatim>\<open>teamId\<close> is a non-empty string, and an empty \<^verbatim>\<open>periods\<close> array every record
  whose \<^verbatim>\<open>period\<close> is a number other than \<open>0\<close> and NaN.
\<close>

theorem filterData_absent_and_empty_allowlist:
  "(teamId s = None \<longrightarrow>
      filterData_keeps (f\<lparr>flt_teams := ts\<rparr>) s = filterData_keeps (f\<lparr>flt_teams := None\<rparr>) s)
   \<and> (period s = None \<longrightarrow>
      filterData_keeps (f\<lparr>flt_periods := ps\<rparr>) s = filterData_keeps (f\<lparr>flt_periods := None\<rparr>) s)
   \<and> (flt_teams f = Some [] \<and> truthy_str (teamId s) \<longrightarrow> s \<notin> set (filterData data f))
   \<and> (flt_periods f = Some [] \<and> truthy (to_number (period s)) \<longrightarrow>
        s \<notin> set (filterData data f))"
proof (intro conjI impI)
  assume "teamId s = None"
  then show "filterData_keeps (f\<lparr>flt_teams := ts\<rparr>) s = filterData_keeps (f\<lparr>flt_teams := None\<rparr>) s"
    by (simp add: filterData_keeps_def split: option.splits)
next
  assume "period s = None"
  then show "filterData_keeps (f\<lparr>flt_periods := ps\<rparr>) s
      = filterData_keeps (f\<lparr>flt_periods := None\<rparr>) s"
    by (simp add: filterData_keeps_def split: option.splits)
next
  assume "flt_teams f = Some [] \<and> truthy_str (teamId s)"
  then have "\<not> filterData_keeps f s"
    by (cases "teamId s") (auto simp: filterData_keeps_def)
  then show "s \<notin> set (filterData data f)" by (simp add: filterData_def)
next
  assume "flt_periods f = Some [] \<and> truthy (to_number (period s))"
  then have "\<not> filterData_keeps f s"
    by (cases "period s") (auto simp: filterData_keeps_def)
  then show "s \<notin> set (filterData data f)" by (simp add: filterData_def)
qed

theorem filterData_absent_and_empty_allowlist_witness:
  "teamId (shot (Num 1) (Num 2) (Num 0.3) None None) = None
   \<and> period (shot (Num 1) (Num 2) (Num 0.3) None None) = None
   \<and> filterData_keeps (no_filters\<lparr>flt_teams := Some [''TOR'']\<rparr>)
         (shot (Num 1) (Num 2) (Num 0.3) None None)
       = filterData_keeps (no_filters\<lparr>flt_teams := None\<rparr>)
         (shot (Num 1) (Num 2) (Num 0.3) None None)
   \<and> filterData_keeps (no_filters\<lparr>flt_periods := Some [Num 3]\<rparr>)
         (shot (Num 1) (Num 2) (Num 0.3) None None)
       = filterData_keeps (no_filters\<lparr>flt_periods := None\<rparr>)
         (shot (Num 1) (Num 2) (Num 0.3) None None)
   \<and> flt_teams (no_filters\<lparr>flt_teams := Some [], flt_periods := Some []\<rparr>) = Some []
   \<and> flt_periods (no_filters\<lparr>flt_teams := Some [], flt_periods := Some []\<rparr>) = Some []
   \<and> truthy_str (teamId (sample_shots ! 0))
   \<and> truthy (to_number (period (sample_shots ! 0)))
   \<and> sample_shots ! 0 \<notin>
       set (filterData sample_shots (no_filters\<lparr>flt_teams := Some [], flt_periods := Some []\<rparr>))"
proof -
  let ?s = "shot (Num 1) (Num 2) (Num 0.3) None None"
  let ?f = "no_filters\<lparr>flt_teams := Some [], flt_periods := Some []\<rparr>"
  have a: "teamId ?s = None" "period ?s = None" by (simp_all add: shot_def)
  have b: "flt_teams ?f = Some []" "flt_periods ?f = Some []" by simp_all
  have c: "truthy_str (teamId (sample_shots ! 0))"
    "truthy (to_number (period (sample_shots ! 0)))"
    by (simp_all add: sample_shots_def shot_def)
  show ?thesis
    using a b c
      filterData_absent_and_empty_allowlist
        [where s = ?s and f = no_filters and ts = "Some [''TOR'']" and ps = "Some [Num 3]"]
      filterData_absent_and_empty_allowlist
        [where s = "sample_shots ! 0" and f = ?f and data = sample_shots]
    by blast
qed

end
